theory Spec2Isabelle
  imports Complex_Main
begin

section \<open>The steady-state heat notebook (newmodel.ipynb)\<close>

text \<open>
  The notebook is a straight-line Python script, run cell by cell, that calls the
  finite-element library \<^verbatim>\<open>underworld\<close>, its plotting companion \<^verbatim>\<open>glucifer\<close> and
  \<^verbatim>\<open>numpy\<close>. None of the three is part of the repository, so every library entry point
  whose result the notebook cannot know is a field of the record \<open>library\<close> below, and
  every theorem holds for all libraries.

  A Python float is modelled by the real number it denotes; NaN and the infinities have
  no counterpart, so the model describes the runs whose data are finite. The notebook
  itself stores the float constants 0.0 and 1.0 and forms the product
  \<^verbatim>\<open>boxHeight*boxLength\<close> of the constants 1.0 and 2.0, which is exact in binary
  floating point and so is the real product. It also divides the integral by that
  product: float division rounds its result, so the quotient of two floats is not the
  real quotient in general (5e-324 / 2.0 is 0.0) and is a field of \<open>library\<close> as well.
  All other arithmetic happens inside the library.
\<close>

subsection \<open>The objects the notebook builds\<close>

datatype error = IndexError | RuntimeError string

text \<open>
  The handle returned by \<^verbatim>\<open>uw.mesh.FeMesh_Cartesian\<close> is identified with the keyword
  arguments it was built from.
\<close>

record mesh =
  elementType :: string
  elementRes :: "nat \<times> nat"
  minCoord :: "real \<times> real"
  maxCoord :: "real \<times> real"

text \<open>
  A mesh variable is its mesh and its number of degrees of freedom per node; its
  \<^verbatim>\<open>data\<close> array is mutable and lives in the state. With one degree of freedom per
  node the array has one entry per node, so it is a list of reals indexed by node.
\<close>

record MeshVariable =
  var_mesh :: mesh
  nodeDofCount :: nat

text \<open>An index set of the library is modelled by the set of its member indices.\<close>

type_synonym IndexSet = "nat set"

record DirichletCondition =
  variable :: MeshVariable
  indexSetsPerDof :: "IndexSet list"

record SteadyStateHeat =
  heat_temperatureField :: MeshVariable
  fn_diffusivity :: real
  conditions :: DirichletCondition

text \<open>
  The library, as far as the notebook calls it:
  \<^item> \<open>add_variable m n\<close>: the data array of a fresh variable on mesh \<open>m\<close> with \<open>n\<close>
    degrees of freedom per node;
  \<^item> \<open>specialSets m key\<close>: the index set \<^verbatim>\<open>m.specialSets[key]\<close>;
  \<^item> \<open>IndexSet_add a b\<close>: the index set \<^verbatim>\<open>a + b\<close>;
  \<^item> \<open>solve eq d\<close>: the field data after \<^verbatim>\<open>uw.systems.Solver(eq).solve()\<close>, which
    overwrites the data \<open>d\<close> of the equation's field in place;
  \<^item> \<open>Integral_evaluate v m d\<close>: the list \<^verbatim>\<open>uw.utils.Integral(v, m).evaluate()\<close> when
    the data of \<open>v\<close> is \<open>d\<close>;
  \<^item> \<open>isclose a b\<close>: \<^verbatim>\<open>np.isclose(a, b)\<close>;
  \<^item> \<open>truediv a b\<close>: the float \<^verbatim>\<open>a / b\<close> for a divisor other than zero, rounded as
    binary64 division rounds it.
\<close>

record library =
  add_variable :: "mesh \<Rightarrow> nat \<Rightarrow> real list"
  specialSets :: "mesh \<Rightarrow> string \<Rightarrow> IndexSet"
  IndexSet_add :: "IndexSet \<Rightarrow> IndexSet \<Rightarrow> IndexSet"
  solve :: "SteadyStateHeat \<Rightarrow> real list \<Rightarrow> real list"
  Integral_evaluate :: "MeshVariable \<Rightarrow> mesh \<Rightarrow> real list \<Rightarrow> real list"
  isclose :: "real \<Rightarrow> real \<Rightarrow> bool"
  truediv :: "real \<Rightarrow> real \<Rightarrow> real"

subsection \<open>The kernel state\<close>

text \<open>
  Every Python name of the notebook is bound once and never rebound, so each is a
  constant below. What changes is the data array of the temperature field, which is
  assigned to by the notebook and overwritten by the solver. The state also records the
  statements executed so far, in order. Before the field is declared there is no data
  array; the initial state holds the empty list.
\<close>

datatype statement =
    Set_parameters
  | Call_FeMesh_Cartesian
  | Call_add_variable
  | Assign_data_all
  | Call_DirichletCondition
  | Assign_data_botWalls
  | Assign_data_topWalls
  | Call_Figure
  | Call_fig_show
  | Call_SteadyStateHeat
  | Call_Solver
  | Call_solve
  | Call_Integral
  | Compute_avtemp
  | Check_avtemp

record state =
  field_data :: "real list"
  trace :: "statement list"

definition init_state :: state where
  "init_state = \<lparr>field_data = [], trace = []\<rparr>"

definition append_trace :: "statement list \<Rightarrow> state \<Rightarrow> state" where
  "append_trace xs s = s\<lparr>trace := trace s @ xs\<rparr>"

subsection \<open>numpy array assignment\<close>

text \<open>\<^verbatim>\<open>data[:] = v\<close> stores \<open>v\<close> in every entry.\<close>

definition setitem_all :: "real list \<Rightarrow> real \<Rightarrow> real list" where
  "setitem_all d v = map (\<lambda>_. v) d"

text \<open>
  \<^verbatim>\<open>data[idx] = v\<close> for a set of indices: numpy raises IndexError, and stores nothing,
  when an index is out of bounds; otherwise \<open>v\<close> is stored at every index of the set and
  the other entries are kept.
\<close>

definition setitem :: "real list \<Rightarrow> IndexSet \<Rightarrow> real \<Rightarrow> error + real list" where
  "setitem d idx v =
     (if idx \<subseteq> {..<length d}
      then Inr (map (\<lambda>i. if i \<in> idx then v else d ! i) [0..<length d])
      else Inl IndexError)"

subsection \<open>The names the notebook binds\<close>

definition boxHeight :: real where
  "boxHeight = 1"

definition boxLength :: real where
  "boxLength = 2"

definition resx :: nat where
  "resx = 16"

definition resy :: nat where
  "resy = 8"

definition mesh :: mesh where
  "mesh = \<lparr>elementType = ''Q1/dQ0'',
           elementRes = (resx, resy),
           minCoord = (0, 0),
           maxCoord = (boxLength, boxHeight)\<rparr>"

definition temperatureField :: MeshVariable where
  "temperatureField = \<lparr>var_mesh = mesh, nodeDofCount = 1\<rparr>"

definition botWalls :: "library \<Rightarrow> IndexSet" where
  "botWalls lib = specialSets lib mesh ''Bottom_VertexSet''"

definition topWalls :: "library \<Rightarrow> IndexSet" where
  "topWalls lib = specialSets lib mesh ''Top_VertexSet''"

definition bcWalls :: "library \<Rightarrow> IndexSet" where
  "bcWalls lib = IndexSet_add lib (botWalls lib) (topWalls lib)"

definition tempBC :: "library \<Rightarrow> DirichletCondition" where
  "tempBC lib = \<lparr>variable = temperatureField, indexSetsPerDof = [bcWalls lib]\<rparr>"

definition heatequation :: "library \<Rightarrow> SteadyStateHeat" where
  "heatequation lib =
     \<lparr>heat_temperatureField = temperatureField,
      fn_diffusivity = 1,
      conditions = tempBC lib\<rparr>"

text \<open>
  \<^verbatim>\<open>tottemp = uw.utils.Integral(temperatureField, mesh)\<close> and
  \<^verbatim>\<open>avtemp = tottemp.evaluate()[0] / (boxHeight*boxLength)\<close>: indexing an empty result
  raises IndexError; the division is the float division, and its divisor is never zero.
\<close>

definition tottemp :: "library \<Rightarrow> real list \<Rightarrow> real list" where
  "tottemp lib d = Integral_evaluate lib temperatureField mesh d"

definition avtemp :: "library \<Rightarrow> real list \<Rightarrow> error + real" where
  "avtemp lib d =
     (case tottemp lib d of
        [] \<Rightarrow> Inl IndexError
      | t # _ \<Rightarrow> Inr (truediv lib t (boxHeight * boxLength)))"

subsection \<open>The code cells, in the order of the file\<close>

text \<open>
  A cell maps the state to the state it leaves and the exception it raised, if any.
  The first cell only imports the two modules and is not modelled.
\<close>

type_synonym cell = "state \<Rightarrow> state \<times> error option"

definition cell_mesh :: cell where
  "cell_mesh s = (append_trace [Set_parameters, Call_FeMesh_Cartesian] s, None)"

definition cell_field :: "library \<Rightarrow> cell" where
  "cell_field lib s =
     (let s1 = (append_trace [Call_add_variable] s)\<lparr>field_data := add_variable lib mesh 1\<rparr>;
          s2 = (append_trace [Assign_data_all] s1)\<lparr>field_data := setitem_all (field_data s1) 0\<rparr>
      in (s2, None))"

definition cell_conditions :: cell where
  "cell_conditions s = (append_trace [Call_DirichletCondition] s, None)"

definition cell_boundary_values :: "library \<Rightarrow> cell" where
  "cell_boundary_values lib s =
     (let s1 = append_trace [Assign_data_botWalls] s in
      case setitem (field_data s1) (botWalls lib) 1 of
        Inl e \<Rightarrow> (s1, Some e)
      | Inr d1 \<Rightarrow>
          (let s2 = append_trace [Assign_data_topWalls] (s1\<lparr>field_data := d1\<rparr>) in
           case setitem (field_data s2) (topWalls lib) 0 of
             Inl e \<Rightarrow> (s2, Some e)
           | Inr d2 \<Rightarrow> (s2\<lparr>field_data := d2\<rparr>, None)))"

text \<open>
  Building the figure and rendering it read the mesh and the field; they leave the
  field data as it is.
\<close>

definition cell_figure :: cell where
  "cell_figure s = (append_trace [Call_Figure, Call_fig_show] s, None)"

definition cell_solve :: "library \<Rightarrow> cell" where
  "cell_solve lib s =
     ((append_trace [Call_SteadyStateHeat, Call_Solver, Call_solve] s)
        \<lparr>field_data := solve lib (heatequation lib) (field_data s)\<rparr>, None)"

definition cell_show_again :: cell where
  "cell_show_again s = (append_trace [Call_fig_show] s, None)"

definition cell_check :: "library \<Rightarrow> cell" where
  "cell_check lib s =
     (let s1 = append_trace [Call_Integral, Compute_avtemp] s in
      case avtemp lib (field_data s1) of
        Inl e \<Rightarrow> (s1, Some e)
      | Inr a \<Rightarrow>
          (let s2 = append_trace [Check_avtemp] s1 in
           if \<not> isclose lib a (1 / 2)
           then (s2, Some (RuntimeError ''Incorrect average temperature produced by model. ''))
           else (s2, None)))"

text \<open>Cells run in order; the first exception stops the run and keeps the state.\<close>

fun run_cells :: "cell list \<Rightarrow> state \<Rightarrow> state \<times> error option" where
  "run_cells [] s = (s, None)"
| "run_cells (c # cs) s =
     (case c s of
        (s', None) \<Rightarrow> run_cells cs s'
      | (s', Some e) \<Rightarrow> (s', Some e))"

definition notebook_cells :: "library \<Rightarrow> cell list" where
  "notebook_cells lib =
     [cell_mesh, cell_field lib, cell_conditions, cell_boundary_values lib,
      cell_figure, cell_solve lib, cell_show_again, cell_check lib]"

text \<open>The state and exception after the first \<open>k\<close> code cells, and after all of them.\<close>

definition after_cells :: "nat \<Rightarrow> library \<Rightarrow> state \<times> error option" where
  "after_cells k lib = run_cells (take k (notebook_cells lib)) init_state"

definition notebook :: "library \<Rightarrow> state \<times> error option" where
  "notebook lib = run_cells (notebook_cells lib) init_state"

text \<open>
  Two states of the run, written out: the one the first three code cells leave (the
  field declared and zeroed, the boundary condition built), and the one the figure,
  solver and second rendering cells leave when started in \<open>s4\<close>, the state after the
  boundary values were assigned.
\<close>

definition declared_state :: "library \<Rightarrow> state" where
  "declared_state lib =
     \<lparr>field_data = replicate (length (add_variable lib mesh 1)) 0,
      trace = [Set_parameters, Call_FeMesh_Cartesian, Call_add_variable, Assign_data_all,
               Call_DirichletCondition]\<rparr>"

definition solved_state :: "library \<Rightarrow> state \<Rightarrow> state" where
  "solved_state lib s4 = fst (cell_show_again (fst (cell_solve lib (fst (cell_figure s4)))))"

subsection \<open>The phases of the script\<close>

datatype phase =
    Parameter_declaration
  | Mesh_variable_construction
  | Boundary_condition_construction
  | Solver_invocation
  | Visualization
  | Post_check

fun phase_of :: "statement \<Rightarrow> phase" where
  "phase_of Set_parameters = Parameter_declaration"
| "phase_of Call_FeMesh_Cartesian = Mesh_variable_construction"
| "phase_of Call_add_variable = Mesh_variable_construction"
| "phase_of Assign_data_all = Mesh_variable_construction"
| "phase_of Call_DirichletCondition = Boundary_condition_construction"
| "phase_of Assign_data_botWalls = Boundary_condition_construction"
| "phase_of Assign_data_topWalls = Boundary_condition_construction"
| "phase_of Call_Figure = Visualization"
| "phase_of Call_fig_show = Visualization"
| "phase_of Call_SteadyStateHeat = Solver_invocation"
| "phase_of Call_Solver = Solver_invocation"
| "phase_of Call_solve = Solver_invocation"
| "phase_of Call_Integral = Post_check"
| "phase_of Compute_avtemp = Post_check"
| "phase_of Check_avtemp = Post_check"

text \<open>The phases a trace goes through: consecutive statements of one phase count once.\<close>

definition phases :: "statement list \<Rightarrow> phase list" where
  "phases tr = remdups_adj (map phase_of tr)"

text \<open>The order of phases as the specification lists it.\<close>

definition spec_order :: "phase list" where
  "spec_order =
     [Parameter_declaration, Mesh_variable_construction, Boundary_condition_construction,
      Solver_invocation, Visualization, Post_check]"

subsection \<open>A concrete library to run the model on\<close>

text \<open>
  A stand-in for the library on which the model can be evaluated: nodes are numbered
  row by row from the bottom left, a fresh variable holds arbitrary values, \<^verbatim>\<open>+\<close> on
  index sets is union, the solver returns the profile that falls linearly from the
  bottom row to the top row, the integral is the domain area times the mean nodal
  value, \<open>isclose\<close> is numpy's documented test with its default tolerances, and the
  quotient is the real one, which is the float quotient wherever it is used below
  (2 / 2 and 1 / 2).
\<close>

definition sample_rows :: "mesh \<Rightarrow> nat" where
  "sample_rows m = snd (elementRes m) + 1"

definition sample_cols :: "mesh \<Rightarrow> nat" where
  "sample_cols m = fst (elementRes m) + 1"

definition sample_area :: "mesh \<Rightarrow> real" where
  "sample_area m =
     (fst (maxCoord m) - fst (minCoord m)) * (snd (maxCoord m) - snd (minCoord m))"

definition sample_library :: library where
  "sample_library =
     \<lparr>add_variable = (\<lambda>m n. replicate (sample_cols m * sample_rows m * n) 7),
      specialSets = (\<lambda>m key.
        if key = ''Bottom_VertexSet'' then {0..<sample_cols m}
        else if key = ''Top_VertexSet''
        then {snd (elementRes m) * sample_cols m..<sample_rows m * sample_cols m}
        else {}),
      IndexSet_add = (\<union>),
      solve = (\<lambda>eq d.
        map (\<lambda>i. 1 - real (i div sample_cols (var_mesh (heat_temperatureField eq)))
                        / real (snd (elementRes (var_mesh (heat_temperatureField eq)))))
            [0..<length d]),
      Integral_evaluate = (\<lambda>v m d. [sample_area m * sum_list d / real (length d)]),
      isclose = (\<lambda>a b. \<bar>a - b\<bar> \<le> 1 / 10 ^ 8 + 1 / 10 ^ 5 * \<bar>b\<bar>),
      truediv = (/)\<rparr>"

section \<open>Properties\<close>

subsection \<open>Array assignment\<close>

lemmas sample_simps = sample_library_def sample_rows_def sample_cols_def sample_area_def

lemmas name_simps = mesh_def temperatureField_def resx_def resy_def boxHeight_def
  boxLength_def botWalls_def topWalls_def bcWalls_def tempBC_def heatequation_def

lemma setitem_all_replicate: "setitem_all d v = replicate (length d) v"
  by (simp add: setitem_all_def map_replicate_const)

lemma setitem_Inr_iff:
  "(setitem d idx v = Inr d') =
     (idx \<subseteq> {..<length d} \<and> d' = map (\<lambda>i. if i \<in> idx then v else d ! i) [0..<length d])"
  by (auto simp: setitem_def)

lemma setitem_Inl_iff:
  "(setitem d idx v = Inl e) = (\<not> idx \<subseteq> {..<length d} \<and> e = IndexError)"
  by (auto simp: setitem_def)

subsection \<open>The cell that assigns the boundary values\<close>

lemmas boundary_simps = cell_boundary_values_def append_trace_def Let_def
  setitem_Inr_iff setitem_Inl_iff

lemma boundary_values_length:
  "length (field_data (fst (cell_boundary_values lib s))) = length (field_data s)"
  by (auto simp: boundary_simps split: sum.splits)

lemma boundary_values_frame:
  "i < length (field_data s) \<Longrightarrow> i \<notin> botWalls lib \<Longrightarrow> i \<notin> topWalls lib \<Longrightarrow>
   field_data (fst (cell_boundary_values lib s)) ! i = field_data s ! i"
  by (auto simp: boundary_simps split: sum.splits)

lemma boundary_values_ok:
  "botWalls lib \<union> topWalls lib \<subseteq> {..<length (field_data s)} \<Longrightarrow>
   snd (cell_boundary_values lib s) = None"
  by (auto simp: boundary_simps split: sum.splits)

lemma boundary_values_top:
  "snd (cell_boundary_values lib s) = None \<Longrightarrow> i \<in> topWalls lib \<Longrightarrow>
   field_data (fst (cell_boundary_values lib s)) ! i = 0"
  by (auto simp: boundary_simps split: sum.splits)

lemma boundary_values_bot:
  "snd (cell_boundary_values lib s) = None \<Longrightarrow> i \<in> botWalls lib \<Longrightarrow>
   i \<notin> topWalls lib \<Longrightarrow> field_data (fst (cell_boundary_values lib s)) ! i = 1"
  by (auto simp: boundary_simps split: sum.splits)

lemma boundary_values_trace:
  "snd (cell_boundary_values lib s) = None \<Longrightarrow>
   trace (fst (cell_boundary_values lib s))
     = trace s @ [Assign_data_botWalls, Assign_data_topWalls]"
  by (auto simp: cell_boundary_values_def append_trace_def Let_def split: sum.splits)

lemma boundary_values_error:
  "snd (cell_boundary_values lib s) = Some e \<Longrightarrow> e = IndexError"
  by (auto simp: boundary_simps split: sum.splits)

subsection \<open>The cell that checks the average\<close>

lemma avtemp_error: "avtemp lib d = Inl e \<Longrightarrow> e = IndexError"
  by (auto simp: avtemp_def split: list.splits)

lemma check_trace:
  "snd (cell_check lib s) \<noteq> Some IndexError \<Longrightarrow>
   trace (fst (cell_check lib s)) = trace s @ [Call_Integral, Compute_avtemp, Check_avtemp]"
  by (auto simp: cell_check_def append_trace_def Let_def split: sum.splits dest: avtemp_error)

lemma check_data: "field_data (fst (cell_check lib s)) = field_data s"
  by (simp add: cell_check_def append_trace_def Let_def split: sum.splits)

subsection \<open>Prefixes of the run\<close>

lemma run_one:
  "(case p of (s', None) \<Rightarrow> (s', None) | (s', Some e) \<Rightarrow> (s', Some e))
     = (p :: state \<times> error option)"
  by (simp split: prod.splits option.splits)

lemmas prefix_simps = after_cells_def notebook_cells_def init_state_def cell_mesh_def
  cell_field_def cell_conditions_def declared_state_def append_trace_def Let_def
  setitem_all_replicate

lemma after_2:
  "after_cells 2 lib =
     (\<lparr>field_data = replicate (length (add_variable lib mesh 1)) 0,
       trace = [Set_parameters, Call_FeMesh_Cartesian, Call_add_variable, Assign_data_all]\<rparr>,
      None)"
  by (simp add: prefix_simps)

lemma after_3: "after_cells 3 lib = (declared_state lib, None)"
  by (simp add: prefix_simps)

lemma after_4: "after_cells 4 lib = cell_boundary_values lib (declared_state lib)"
  by (simp add: prefix_simps run_one)

lemma after_5:
  "after_cells 5 lib =
     (case cell_boundary_values lib (declared_state lib) of
        (s', None) \<Rightarrow> cell_figure s'
      | (s', Some e) \<Rightarrow> (s', Some e))"
  by (simp add: prefix_simps run_one)

lemma after_5_data:
  "field_data (fst (after_cells 5 lib)) = field_data (fst (after_cells 4 lib))"
  by (simp add: after_5 after_4 cell_figure_def append_trace_def
      split: prod.splits option.splits)

lemma after_5_error: "snd (after_cells 5 lib) = snd (after_cells 4 lib)"
  by (simp add: after_5 after_4 cell_figure_def append_trace_def
      split: prod.splits option.splits)

lemmas later_simps = solved_state_def cell_figure_def cell_solve_def cell_show_again_def

lemma after_7:
  "after_cells 7 lib =
     (case cell_boundary_values lib (declared_state lib) of
        (s4, None) \<Rightarrow> (solved_state lib s4, None)
      | (s4, Some e) \<Rightarrow> (s4, Some e))"
  by (simp add: prefix_simps run_one later_simps split: prod.splits option.splits)

lemma notebook_unfold:
  "notebook lib =
     (case cell_boundary_values lib (declared_state lib) of
        (s4, None) \<Rightarrow> cell_check lib (solved_state lib s4)
      | (s4, Some e) \<Rightarrow> (s4, Some e))"
  by (simp add: notebook_def prefix_simps run_one later_simps
      split: prod.splits option.splits)

lemma notebook_trace:
  assumes ok: "snd (notebook lib) \<noteq> Some IndexError"
  shows "trace (fst (notebook lib)) =
     [Set_parameters, Call_FeMesh_Cartesian, Call_add_variable, Assign_data_all,
      Call_DirichletCondition, Assign_data_botWalls, Assign_data_topWalls,
      Call_Figure, Call_fig_show, Call_SteadyStateHeat, Call_Solver, Call_solve,
      Call_fig_show, Call_Integral, Compute_avtemp, Check_avtemp]"
proof -
  obtain s4 r where c: "cell_boundary_values lib (declared_state lib) = (s4, r)"
    by (cases "cell_boundary_values lib (declared_state lib)")
  have r: "r = None"
  proof (cases r)
    case (Some e)
    with c have "snd (cell_boundary_values lib (declared_state lib)) = Some e" by simp
    then have "e = IndexError" by (rule boundary_values_error)
    with Some c ok show ?thesis by (simp add: notebook_unfold)
  qed simp
  from c r have nb: "notebook lib = cell_check lib (solved_state lib s4)"
    by (simp add: notebook_unfold)
  from c r have t4:
    "trace s4 = trace (declared_state lib) @ [Assign_data_botWalls, Assign_data_topWalls]"
    using boundary_values_trace [of lib "declared_state lib"] by simp
  have ts: "trace (solved_state lib s4) =
      trace s4 @ [Call_Figure, Call_fig_show, Call_SteadyStateHeat, Call_Solver,
                  Call_solve, Call_fig_show]"
    by (simp add: later_simps append_trace_def)
  from ok nb have "trace (fst (notebook lib)) =
      trace (solved_state lib s4) @ [Call_Integral, Compute_avtemp, Check_avtemp]"
    using check_trace [of lib "solved_state lib s4"] by simp
  with ts t4 show ?thesis
    by (simp add: declared_state_def)
qed

subsection \<open>The sample library\<close>

lemma sample_botWalls: "botWalls sample_library = {0..<17}"
  by (simp add: sample_simps name_simps)

lemma sample_topWalls: "topWalls sample_library = {136..<153}"
  by (simp add: sample_simps name_simps)

lemma sample_add_variable: "add_variable sample_library mesh n = replicate (153 * n) 7"
  by (simp add: sample_simps name_simps)

lemma sample_in_range:
  "botWalls sample_library \<union> topWalls sample_library
     \<subseteq> {..<length (add_variable sample_library mesh 1)}"
  by (auto simp: sample_botWalls sample_topWalls sample_add_variable)

lemma sample_disjoint: "botWalls sample_library \<inter> topWalls sample_library = {}"
  by (auto simp: sample_botWalls sample_topWalls)

lemma sample_no_IndexError: "snd (notebook sample_library) \<noteq> Some IndexError"
proof -
  have "snd (cell_boundary_values sample_library (declared_state sample_library)) = None"
    using sample_in_range by (intro boundary_values_ok) (simp add: declared_state_def)
  moreover have "snd (cell_check sample_library s) \<noteq> Some IndexError" for s
    by (simp add: cell_check_def avtemp_def tottemp_def sample_library_def Let_def)
  ultimately show ?thesis
    by (auto simp: notebook_unfold split: prod.splits option.splits)
qed

lemma sample_avtemp_far: "avtemp sample_library [1, 1] = Inr 1"
  by (simp add: avtemp_def tottemp_def sample_simps name_simps)

lemma sample_avtemp_close: "avtemp sample_library [1, 0] = Inr (1 / 2)"
  by (simp add: avtemp_def tottemp_def sample_simps name_simps)

lemma sample_isclose:
  "isclose sample_library a b = (\<bar>a - b\<bar> \<le> 1 / 10 ^ 8 + 1 / 10 ^ 5 * \<bar>b\<bar>)"
  by (simp add: sample_library_def)

section \<open>The claims\<close>

text \<open>
  C2. The final check raises a RuntimeError exactly when the average temperature it
  computed is not close to 0.5, and then with the fixed message; it raises nothing
  exactly when the average was computed and is close to 0.5. The only other outcome is
  the IndexError of indexing an empty result of the integral.
\<close>

theorem check_raises_iff_not_close:
  "(snd (cell_check lib s) = Some (RuntimeError m)) =
     (m = ''Incorrect average temperature produced by model. '' \<and>
      (\<exists>a. avtemp lib (field_data s) = Inr a \<and> \<not> isclose lib a (1 / 2))) \<and>
   (snd (cell_check lib s) = None) =
     (\<exists>a. avtemp lib (field_data s) = Inr a \<and> isclose lib a (1 / 2))"
  by (auto simp: cell_check_def append_trace_def Let_def split: sum.splits
      dest: avtemp_error)

theorem check_raises_iff_not_close_witness:
  "snd (cell_check sample_library \<lparr>field_data = [1, 1], trace = []\<rparr>)
     = Some (RuntimeError ''Incorrect average temperature produced by model. '') \<and>
   snd (cell_check sample_library \<lparr>field_data = [1, 0], trace = []\<rparr>) = None"
proof -
  have far: "\<exists>a. avtemp sample_library (field_data \<lparr>field_data = [1, 1], trace = []\<rparr>) = Inr a
               \<and> \<not> isclose sample_library a (1 / 2)"
    by (intro exI [of _ 1]) (simp add: sample_avtemp_far sample_isclose)
  have close: "\<exists>a. avtemp sample_library (field_data \<lparr>field_data = [1, 0], trace = []\<rparr>) = Inr a
               \<and> isclose sample_library a (1 / 2)"
    by (intro exI [of _ "1 / 2"]) (simp add: sample_avtemp_close sample_isclose)
  from far close
    check_raises_iff_not_close [of sample_library "\<lparr>field_data = [1, 1], trace = []\<rparr>"
      "''Incorrect average temperature produced by model. ''"]
    check_raises_iff_not_close [of sample_library "\<lparr>field_data = [1, 0], trace = []\<rparr>"]
  show ?thesis by blast
qed



text \<open>
  C4. After the cell that declares the temperature field with one degree of freedom per
  node and assigns \<^verbatim>\<open>data[:] = 0.\<close>, no exception has been raised, the data array has
  the length the library gave it, and every entry is 0, whatever the library put there.
\<close>

theorem field_zero_after_declaration:
  "snd (after_cells 2 lib) = None \<and>
   nodeDofCount temperatureField = 1 \<and>
   length (field_data (fst (after_cells 2 lib)))
     = length (add_variable lib mesh (nodeDofCount temperatureField)) \<and>
   (\<forall>i < length (field_data (fst (after_cells 2 lib))).
      field_data (fst (after_cells 2 lib)) ! i = 0)"
  by (simp add: after_2 temperatureField_def)

theorem field_zero_after_declaration_witness:
  "snd (after_cells 2 sample_library) = None \<and>
   length (field_data (fst (after_cells 2 sample_library))) = 153 \<and>
   field_data (fst (after_cells 2 sample_library)) ! 40 = 0"
proof -
  from field_zero_after_declaration [of sample_library]
  have e: "snd (after_cells 2 sample_library) = None"
    and l: "length (field_data (fst (after_cells 2 sample_library)))
              = length (add_variable sample_library mesh (nodeDofCount temperatureField))"
    and z: "\<forall>i < length (field_data (fst (after_cells 2 sample_library))).
              field_data (fst (after_cells 2 sample_library)) ! i = 0"
    by blast+
  from l have l': "length (field_data (fst (after_cells 2 sample_library))) = 153"
    by (simp add: sample_add_variable temperatureField_def)
  with z have "field_data (fst (after_cells 2 sample_library)) ! 40 = 0" by simp
  with e l' show ?thesis by simp
qed

text \<open>
  C6. Where the bottom and top vertex sets index into the field's data array and share
  no vertex, the two assignments raise nothing and leave 1 at every index of the bottom
  set and 0 at every index of the top set; rendering the figure afterwards changes
  neither, so this is the data the solver is started on.
\<close>

theorem boundary_values_assigned:
  assumes "botWalls lib \<union> topWalls lib \<subseteq> {..<length (add_variable lib mesh 1)}"
    and "botWalls lib \<inter> topWalls lib = {}"
  shows "snd (after_cells 4 lib) = None \<and>
    (\<forall>i\<in>botWalls lib. field_data (fst (after_cells 4 lib)) ! i = 1) \<and>
    (\<forall>i\<in>topWalls lib. field_data (fst (after_cells 4 lib)) ! i = 0) \<and>
    snd (after_cells 5 lib) = None \<and>
    field_data (fst (after_cells 5 lib)) = field_data (fst (after_cells 4 lib))"
proof -
  from assms(1) have ok: "snd (cell_boundary_values lib (declared_state lib)) = None"
    by (intro boundary_values_ok) (simp add: declared_state_def)
  from assms(2) have "\<And>i. i \<in> botWalls lib \<Longrightarrow> i \<notin> topWalls lib"
    by auto
  with ok show ?thesis
    by (simp add: after_4 after_5_data after_5_error boundary_values_top boundary_values_bot)
qed

theorem boundary_values_assigned_witness:
  "botWalls sample_library \<union> topWalls sample_library
     \<subseteq> {..<length (add_variable sample_library mesh 1)} \<and>
   botWalls sample_library \<inter> topWalls sample_library = {} \<and>
   snd (after_cells 4 sample_library) = None \<and>
   field_data (fst (after_cells 4 sample_library)) ! 3 = 1 \<and>
   field_data (fst (after_cells 4 sample_library)) ! 150 = 0"
  using boundary_values_assigned [OF sample_in_range sample_disjoint]
    sample_in_range sample_disjoint
  by (simp add: sample_botWalls sample_topWalls)

text \<open>
  C7 (amended). In a run in which no IndexError is raised, the phases follow each other
  as: parameter declaration, mesh and variable construction, boundary-condition
  construction, visualization of the initial field, solver invocation, visualization of
  the solved field, post-check. The figure is rendered twice, once before and once
  after the solver; every other statement is executed once.
\<close>

theorem notebook_order:
  assumes "snd (notebook lib) \<noteq> Some IndexError"
  shows "phases (trace (fst (notebook lib))) =
     [Parameter_declaration, Mesh_variable_construction, Boundary_condition_construction,
      Visualization, Solver_invocation, Visualization, Post_check] \<and>
    count_list (trace (fst (notebook lib))) Call_fig_show = 2 \<and>
    (\<forall>x. x \<noteq> Call_fig_show \<longrightarrow> count_list (trace (fst (notebook lib))) x = 1)"
proof -
  from assms have tr: "trace (fst (notebook lib)) =
     [Set_parameters, Call_FeMesh_Cartesian, Call_add_variable, Assign_data_all,
      Call_DirichletCondition, Assign_data_botWalls, Assign_data_topWalls,
      Call_Figure, Call_fig_show, Call_SteadyStateHeat, Call_Solver, Call_solve,
      Call_fig_show, Call_Integral, Compute_avtemp, Check_avtemp]"
    by (rule notebook_trace)
  have "count_list (trace (fst (notebook lib))) x = 1" if "x \<noteq> Call_fig_show" for x
    using that by (cases x) (simp_all add: tr)
  then show ?thesis
    by (simp add: tr phases_def)
qed

theorem notebook_order_witness:
  "snd (notebook sample_library) \<noteq> Some IndexError \<and>
   phases (trace (fst (notebook sample_library))) =
     [Parameter_declaration, Mesh_variable_construction, Boundary_condition_construction,
      Visualization, Solver_invocation, Visualization, Post_check] \<and>
   count_list (trace (fst (notebook sample_library))) Call_fig_show = 2 \<and>
   count_list (trace (fst (notebook sample_library))) Call_solve = 1"
  using notebook_order [OF sample_no_IndexError] sample_no_IndexError
  by simp

text \<open>
  The order as the specification lists it, with one visualization and that after the
  solver, is not the order of the run: on the sample library the figure is first
  rendered before the solver is invoked.
\<close>

theorem notebook_order_as_specified_fails:
  "phases (trace (fst (notebook sample_library))) =
     [Parameter_declaration, Mesh_variable_construction, Boundary_condition_construction,
      Visualization, Solver_invocation, Visualization, Post_check] \<and>
   phases (trace (fst (notebook sample_library))) \<noteq> spec_order"
  using notebook_trace [OF sample_no_IndexError]
  by (simp add: phases_def spec_order_def)

text \<open>
  C8. The mesh is built with element type Q1/dQ0, element resolution (16, 8) and the
  domain from (0, 0) to (2, 1); the resolution is (resx, resy) and the upper corner is
  (boxLength, boxHeight).
\<close>

theorem mesh_as_declared:
  "mesh = \<lparr>elementType = ''Q1/dQ0'', elementRes = (16, 8),
           minCoord = (0, 0), maxCoord = (2, 1)\<rparr> \<and>
   elementRes mesh = (resx, resy) \<and>
   minCoord mesh = (0, 0) \<and>
   maxCoord mesh = (boxLength, boxHeight)"
  by (simp add: mesh_def resx_def resy_def boxLength_def boxHeight_def)

text \<open>
  C9. After the cell that assigns the boundary values, and still after the figure cell
  that follows it, every entry of the field whose index is in neither wall set is what
  it was before the assignments, namely 0. This holds in every run, also one in which
  an assignment raised IndexError.
\<close>

theorem interior_entries_stay_zero:
  assumes "k \<in> {4, 5}"
    and "i < length (field_data (fst (after_cells k lib)))"
    and "i \<notin> botWalls lib" and "i \<notin> topWalls lib"
  shows "field_data (fst (after_cells k lib)) ! i = 0 \<and>
    field_data (fst (after_cells k lib)) ! i = field_data (fst (after_cells 3 lib)) ! i"
proof -
  from assms(1)
  have d: "field_data (fst (after_cells k lib))
             = field_data (fst (cell_boundary_values lib (declared_state lib)))"
    by (auto simp: after_5_data after_4)
  with assms(2) have i3: "i < length (field_data (declared_state lib))"
    by (simp add: boundary_values_length)
  from boundary_values_frame [OF i3 assms(3) assms(4)] d
  have "field_data (fst (after_cells k lib)) ! i = field_data (declared_state lib) ! i"
    by simp
  moreover from i3 have "field_data (declared_state lib) ! i = 0"
    by (simp add: declared_state_def)
  ultimately show ?thesis
    by (simp add: after_3)
qed

theorem interior_entries_stay_zero_witness:
  "(40::nat) < length (field_data (fst (after_cells 4 sample_library))) \<and>
   40 \<notin> botWalls sample_library \<and> 40 \<notin> topWalls sample_library \<and>
   field_data (fst (after_cells 4 sample_library)) ! 40 = 0 \<and>
   field_data (fst (after_cells 5 sample_library)) ! 40 = 0"
proof -
  have l: "length (field_data (fst (after_cells k sample_library))) = 153"
    if "k \<in> {4, 5}" for k :: nat
    using that
    by (auto simp: after_5_data after_4 boundary_values_length declared_state_def
        sample_add_variable)
  have b: "(40::nat) \<notin> botWalls sample_library"
    and t: "(40::nat) \<notin> topWalls sample_library"
    by (simp_all add: sample_botWalls sample_topWalls)
  have "field_data (fst (after_cells 4 sample_library)) ! 40 = 0"
    using interior_entries_stay_zero [of 4 40 sample_library] l [of 4] b t by simp
  moreover have "field_data (fst (after_cells 5 sample_library)) ! 40 = 0"
    using interior_entries_stay_zero [of 5 40 sample_library] l [of 5] b t by simp
  ultimately show ?thesis
    using l [of 4] b t by simp
qed

text \<open>
  C10. The check cell leaves the field data as it found it, whether it passes, raises
  the RuntimeError or raises IndexError; so the field data at the end of the notebook
  is the data the solver (and the second rendering) left. The mesh is a value the
  notebook binds once and nothing assigns to.
\<close>

theorem check_leaves_field_unchanged:
  "field_data (fst (cell_check lib s)) = field_data s \<and>
   field_data (fst (notebook lib)) = field_data (fst (after_cells 7 lib))"
  by (simp add: check_data notebook_unfold after_7 split: prod.splits option.splits)

end
